theory Spec2Isabelle
  imports Complex_Main "HOL-Library.Multiset"
begin

section \<open>Data model (types.ts)\<close>

text \<open>
  JavaScript numbers are modelled as \<open>real\<close>: the finite values. \<open>NaN\<close> and the
  infinities are outside the model. \<open>undefined\<close> for an optional property is \<open>None\<close>.
  Field names follow the source; \<open>id\<close>, \<open>type\<close> and \<open>notes\<close> carry the suffix \<open>_seg\<close>, and
  the fields of the display shape that repeat a name of the canonical shape carry \<open>_d\<close>.
\<close>

datatype HumanReviewStatus = unreviewed | approved | edited

record Provenance =
  generated_by :: string
  generated_at :: string
  generation_method :: string
  human_review_status :: HumanReviewStatus
  human_reviewer :: "string option"

record SegmentMetadata =
  tune_type :: "string option"
  meter :: "string option"
  tempo_bpm_range :: "real list option"
  instruments :: "string list option"
  region :: "string option"
  performers :: "string list option"
  evidence :: "string list option"
  notes_md :: "string option"

text \<open>
  \<open>SegmentType\<close> is a union of string literals that exists only at compile time; the
  server passes on whatever string the model returned, so \<open>type\<close> is a string here.
\<close>

record StructuralSegment =
  id_seg :: string
  start_time :: real
  end_time :: real
  type_seg :: string
  summary :: string
  confidence :: real
  alternatives :: "string list option"
  notes_seg :: "string option"
  provenance :: Provenance
  segment_metadata :: "SegmentMetadata option"

text \<open>
  \<open>Partial<StructuralSegment>\<close>: every property may be absent (\<open>None\<close>). A present
  optional property may itself hold \<open>undefined\<close>, hence the nested options; a required
  property that is present holds a value.
\<close>

record SegmentPatch =
  p_id :: "string option"
  p_start_time :: "real option"
  p_end_time :: "real option"
  p_type :: "string option"
  p_summary :: "string option"
  p_confidence :: "real option"
  p_alternatives :: "string list option option"
  p_notes :: "string option option"
  p_provenance :: "Provenance option"
  p_segment_metadata :: "SegmentMetadata option option"

datatype Category = music | speech | other

record AudioSegmentMetadata =
  description :: string
  performer :: "string option"
  tuneType :: "string option"
  meter_d :: "string option"
  tempo :: "string option"
  instruments_d :: "string list option"
  region_d :: "string option"
  context_d :: "string option"
  evidence_d :: "string list option"
  alternatives_d :: "string list option"

record AudioSegment =
  id_d :: string
  startTime :: real
  endTime :: real
  label :: string
  category :: Category
  confidence_d :: real
  metadata :: AudioSegmentMetadata

record TechnicalMetadata =
  container_format :: string
  codec :: string
  sample_rate_hz :: nat
  bit_depth :: nat
  channels :: nat
  duration_seconds :: real
  file_size_bytes :: nat
  checksum :: string
  equipment :: "string option"
  software :: "string option"
  processing_notes :: "string list"

datatype AccessLevel = public | research | staff

record AdministrativeMetadata =
  rights_holder :: string
  copyright_status :: string
  license :: string
  access_level :: AccessLevel
  restrictions :: string
  donor_agreement_ref :: "string option"

record Structural =
  segments :: "StructuralSegment list"

text \<open>
  \<open>DescriptiveMetadata\<close> is read and written by key (\<open>(metadata as any)[h]\<close>), so
  it is a map from property names to strings.
\<close>

record ArchivalAudioItem =
  descriptive :: "string \<rightharpoonup> string"
  technical :: TechnicalMetadata
  administrative :: AdministrativeMetadata
  structural :: Structural

datatype AnalysisState =
  IDLE | UPLOADING | COMPUTING_CHECKSUM | TRANSCRIBING | ANALYZING | COMPLETED | ERROR

datatype Tab = desc | tech | admin | struct

text \<open>
  The \<open>useState\<close> cells of the \<open>App\<close> component. Each handler below is a function
  from the state before the event to the state after it; what a handler does to the
  audio element and the document is left out.
\<close>

record AppState =
  state :: AnalysisState
  item :: "ArchivalAudioItem option"
  error :: "string option"
  audioUrl :: "string option"
  currentTime :: real
  isPlaying :: bool
  selectedSegmentId :: "string option"
  activeTab :: Tab
  editingSegmentId :: "string option"
  isNarrating :: bool

section \<open>The segment store (App.tsx)\<close>

text \<open>Object spread of a partial object: a present property overrides the old one.\<close>

definition spread :: "'a option \<Rightarrow> 'a \<Rightarrow> 'a" where
  "spread upd old = (case upd of None \<Rightarrow> old | Some v \<Rightarrow> v)"

text \<open>
  The object literal of \<open>updateSegment\<close>:
  \<^verbatim>\<open>{ ...s, ...updates, provenance: { ...s.provenance, human_review_status: 'edited' } }\<close>.
  The \<open>provenance\<close> property is written last, so a provenance in \<open>updates\<close> is lost.
\<close>

definition editSegment :: "StructuralSegment \<Rightarrow> SegmentPatch \<Rightarrow> StructuralSegment" where
  "editSegment s updates =
     \<lparr> id_seg = spread (p_id updates) (id_seg s),
       start_time = spread (p_start_time updates) (start_time s),
       end_time = spread (p_end_time updates) (end_time s),
       type_seg = spread (p_type updates) (type_seg s),
       summary = spread (p_summary updates) (summary s),
       confidence = spread (p_confidence updates) (confidence s),
       alternatives = spread (p_alternatives updates) (alternatives s),
       notes_seg = spread (p_notes updates) (notes_seg s),
       provenance = (provenance s)\<lparr>human_review_status := edited\<rparr>,
       segment_metadata = spread (p_segment_metadata updates) (segment_metadata s) \<rparr>"

text \<open>
  \<^verbatim>\<open>segments.map(s => s.id === segId ? {...} : s).sort((a, b) => a.start_time - b.start_time)\<close>.
  \<open>Array.prototype.sort\<close> is stable; on finite numbers the comparator orders by
  \<open>start_time\<close>, and the stable sort by a key is \<open>sort_key\<close>.
\<close>

definition updateSegments ::
  "string \<Rightarrow> SegmentPatch \<Rightarrow> StructuralSegment list \<Rightarrow> StructuralSegment list" where
  "updateSegments segId updates segs =
     sort_key start_time
       (map (\<lambda>s. if id_seg s = segId then editSegment s updates else s) segs)"

definition updateSegment :: "string \<Rightarrow> SegmentPatch \<Rightarrow> AppState \<Rightarrow> AppState" where
  "updateSegment segId updates st =
     st\<lparr>item :=
       (case item st of
          None \<Rightarrow> None
        | Some prev \<Rightarrow>
            Some (prev\<lparr>structural :=
              \<lparr>segments = updateSegments segId updates (segments (structural prev))\<rparr>\<rparr>))\<rparr>"

section \<open>Service calls (services/geminiService.ts)\<close>

text \<open>
  What \<open>fetch\<close> hands back: a response that is not \<open>ok\<close>, with the text of its body,
  or an \<open>ok\<close> response with its parsed JSON body (a body that does not parse is not
  modelled). A thrown \<open>Error\<close> is \<open>Inl\<close>.
\<close>

datatype 'a Response = NotOk string | Ok 'a

datatype JsError = Error string

fun message :: "JsError \<Rightarrow> string" where
  "message (Error m) = m"

text \<open>\<open>v || d\<close> on a string that may be absent: the empty string is falsy too.\<close>

definition orElse :: "string option \<Rightarrow> string \<Rightarrow> string" where
  "orElse v d = (case v of None \<Rightarrow> d | Some s \<Rightarrow> if s = [] then d else s)"

record TranscribeData =
  transcript_td :: "string option"
  text_td :: "string option"

definition transcribeAudio :: "TranscribeData Response \<Rightarrow> JsError + string" where
  "transcribeAudio response =
     (case response of
        NotOk msg \<Rightarrow> Inl (Error (orElse (Some msg) ''Transcription failed.''))
      | Ok data \<Rightarrow> Inr (orElse (transcript_td data) (orElse (text_td data) [])))"

record AnalysisResult =
  res_segments :: "StructuralSegment list"
  res_temporal_index :: string
  res_description :: string

definition suggestArchivalSegments :: "AnalysisResult Response \<Rightarrow> JsError + AnalysisResult" where
  "suggestArchivalSegments response =
     (case response of
        NotOk msg \<Rightarrow> Inl (Error (orElse (Some msg) ''Analysis failed.''))
      | Ok result \<Rightarrow> Inr result)"

section \<open>The application (App.tsx)\<close>

definition ARCHIVAL_CSV_HEADERS :: "string list" where
  "ARCHIVAL_CSV_HEADERS =
  [''descriptor'', ''contributor'', ''coverage'', ''creator'', ''date'', ''IE_format'',
    ''description'', ''identifier'', ''language'', ''publisher'', ''relation'', ''rights'',
    ''source'', ''subject'', ''title'', ''type'', ''FullFolderOrFilePath'',
    ''isadg.identifier'', ''isadg.accessionNumber'', ''isadg.title'',
    ''isadg.levelOfDescription'', ''isadg.extentAndMedium'', ''isadg.repository'',
    ''isadg.archivalHistory'', ''isadg.acquisition'', ''isadg.scopeAndContent'',
    ''isadg.appraisal'', ''isadg.accruals'', ''isadg.arrangement'',
    ''isadg.accessConditions'', ''isadg.reproductionConditions'', ''isadg.language'',
    ''isadg.script'', ''isadg.languageNote'', ''isadg.findingAids'',
    ''isadg.locationOfOriginals'', ''isadg.locationOfCopies'',
    ''isadg.relatedUnitsOfDescription'', ''isadg.publicationNote'',
    ''isadg.digitalObjectURI'', ''isadg.generalNote'', ''subjectAccessPoints'',
    ''placeAccessPoints'', ''nameAccessPoints'', ''isadg.genreAccessPoints'',
    ''isadg.descriptionIdentifier'', ''isadg.institutionIdentifier'',
    ''isadg.descriptionStatus'', ''isadg.levelofDetail'', ''isadg.revisionHistory'',
    ''isadg.languageOfDescription'', ''isadg.scriptOfDescription'', ''isadg.sources'',
    ''isadg.archivistNote'', ''isadg.publicationStatus'', ''isadg.physicalObjectName'',
    ''isadg.physicalObjectLocation'', ''isadg.physicalObjectType'',
    ''isadg.alternativeIdentifier'', ''isadg.alternativeIdentifierLabels'', ''eventDates'',
    ''eventTypes'', ''eventStartDates'', ''eventEndDates'', ''isadg.eventActors'',
    ''isadg.eventActorHistories'', ''isadg.culture'', ''atom.legacyId'', ''atom.parentId'',
    ''atom.qubitParentSlug'', ''repository'', ''dc.coverage'', ''dc.language'',
    ''dc.subject'', ''dcterms.isPartOf'', ''dc.rights'', ''dc.format'', ''dc.contributor'',
    ''dc.description'', ''dc.creator'', ''dc.publisher'', ''dc.title'', ''dc.type'',
    ''dc.identifier'', ''dc.date'', ''parts'', ''md5Checksum'', ''technicalNotes'',
    ''Notes'', ''isadg.physicalCharacteristics'', ''isadg.rules'',
    ''isadg.alternativeTitle'']"


subsection \<open>processBlob, one definition per stretch between two awaits\<close>

text \<open>\<^verbatim>\<open>ARCHIVAL_CSV_HEADERS.forEach(h => initialDescriptive[h] = "")\<close>\<close>

definition initialDescriptive :: "string \<rightharpoonup> string" where
  "initialDescriptive = foldl (\<lambda>m h. m(h \<mapsto> [])) Map.empty ARCHIVAL_CSV_HEADERS"

text \<open>
  The identifier (a random number and the year), the title (from the file name) and the
  technical block (checksum, duration, size, container) are computed outside the model
  and passed in.
\<close>

definition initialItem :: "string \<Rightarrow> string \<Rightarrow> TechnicalMetadata \<Rightarrow> ArchivalAudioItem" where
  "initialItem identifier title technical0 =
     \<lparr> descriptive = initialDescriptive
         (''identifier'' \<mapsto> identifier,
          ''title'' \<mapsto> title,
          ''description'' \<mapsto> ''Awaiting semantic abstract...'',
          ''temporal_index'' \<mapsto> [],
          ''transcript'' \<mapsto> [],
          ''isadg.levelOfDescription'' \<mapsto> ''Item'',
          ''isadg.repository'' \<mapsto> ''Irish Traditional Music Archive'',
          ''isadg.language'' \<mapsto> ''en'',
          ''rights'' \<mapsto> ''In copyright'',
          ''dc.rights'' \<mapsto> ''In copyright''),
       technical = technical0,
       administrative =
         \<lparr> rights_holder = ''Preservation Institution'',
           copyright_status = ''Under Copyright'',
           license = ''Internal Review'',
           access_level = staff,
           restrictions = [],
           donor_agreement_ref = None \<rparr>,
       structural = \<lparr>segments = []\<rparr> \<rparr>"

definition processBlob_begin :: "AppState \<Rightarrow> AppState" where
  "processBlob_begin st = st\<lparr>state := COMPUTING_CHECKSUM, error := None\<rparr>"

definition processBlob_ingested :: "string \<Rightarrow> ArchivalAudioItem \<Rightarrow> AppState \<Rightarrow> AppState" where
  "processBlob_ingested url initial st =
     st\<lparr>audioUrl := Some url, item := Some initial, state := TRANSCRIBING\<rparr>"

text \<open>The \<open>catch\<close> of the outer \<open>try\<close>, which holds the checksum and the transcription.\<close>

definition processBlob_catch :: "AppState \<Rightarrow> AppState" where
  "processBlob_catch st = st\<lparr>error := Some ''Critical ingest error.'', state := ERROR\<rparr>"

definition processBlob_transcribed :: "JsError + string \<Rightarrow> AppState \<Rightarrow> AppState" where
  "processBlob_transcribed r st =
     (case r of
        Inl err \<Rightarrow> processBlob_catch st
      | Inr transcript \<Rightarrow>
          st\<lparr>item :=
               (case item st of
                  None \<Rightarrow> None
                | Some prev \<Rightarrow>
                    Some (prev\<lparr>descriptive := (descriptive prev)
                      (''transcript'' \<mapsto> transcript,
                       ''description'' \<mapsto> ''Phasing semantic audit...'')\<rparr>)),
             state := ANALYZING\<rparr>)"

text \<open>
  The updater handed to \<open>setItem\<close> when the analysis returns (the spec's
  \<open>replaceAll\<close>): the segments of the result are stored as they arrive.
\<close>

definition replaceAll :: "AnalysisResult \<Rightarrow> ArchivalAudioItem option \<Rightarrow> ArchivalAudioItem option" where
  "replaceAll result prev0 =
     (case prev0 of
        None \<Rightarrow> None
      | Some prev \<Rightarrow>
          Some (prev\<lparr>descriptive := (descriptive prev)
                  (''temporal_index'' \<mapsto> res_temporal_index result,
                   ''description'' \<mapsto> res_description result,
                   ''isadg.scopeAndContent'' \<mapsto> res_temporal_index result,
                   ''isadg.findingAids'' \<mapsto> res_temporal_index result),
                structural := \<lparr>segments = res_segments result\<rparr>\<rparr>))"

text \<open>The body of \<open>reader.onload\<close> after its await, for both outcomes of the call.\<close>

definition reader_onload :: "JsError + AnalysisResult \<Rightarrow> AppState \<Rightarrow> AppState" where
  "reader_onload r st =
     (case r of
        Inr result \<Rightarrow> st\<lparr>item := replaceAll result (item st), state := COMPLETED\<rparr>
      | Inl err \<Rightarrow>
          st\<lparr>error := Some (''Segmentation failed: '' @ message err), state := ERROR\<rparr>)"

subsection \<open>exportCSV\<close>

text \<open>\<open>Array.prototype.join\<close>\<close>

fun join :: "string \<Rightarrow> string list \<Rightarrow> string" where
  "join sep [] = []"
| "join sep [x] = x"
| "join sep (x # y # ys) = x @ sep @ join sep (y # ys)"

text \<open>\<^verbatim>\<open>val.replace(/"/g, '""')\<close>; \<open>CHR 0x22\<close> is the double quote.\<close>

definition doubleQuotes :: "string \<Rightarrow> string" where
  "doubleQuotes val = concat (map (\<lambda>c. if c = CHR 0x22 then [CHR 0x22, CHR 0x22] else [c]) val)"

text \<open>The function mapped over the headers; \<open>CHR 0x0A\<close> is the line feed.\<close>

definition csvCell :: "(string \<rightharpoonup> string) \<Rightarrow> string \<Rightarrow> string" where
  "csvCell meta h =
     (let val = orElse (meta h) [] in
      if CHR '','' \<in> set val \<or> CHR 0x22 \<in> set val \<or> CHR 0x0A \<in> set val
      then [CHR 0x22] @ doubleQuotes val @ [CHR 0x22]
      else val)"

definition csvContent :: "ArchivalAudioItem \<Rightarrow> string" where
  "csvContent it =
     join '','' ARCHIVAL_CSV_HEADERS @ [CHR 0x0A] @
     join '','' (map (csvCell (descriptive it)) ARCHIVAL_CSV_HEADERS)"

text \<open>The text of the downloaded file; \<open>None\<close> for \<^verbatim>\<open>if (!item) return\<close>.\<close>

definition exportCSV :: "AppState \<Rightarrow> string option" where
  "exportCSV st = (case item st of None \<Rightarrow> None | Some it \<Rightarrow> Some (csvContent it))"

subsection \<open>The display projection (the memoised \<open>segments\<close>)\<close>

text \<open>
  \<open>showNumber\<close> stands for the conversion of a number to a string in a template
  literal, which the language provides. An empty \<open>tempo_bpm_range\<close> is truthy and its
  element 0 is \<open>undefined\<close>.
\<close>

definition projectSegment :: "(real \<Rightarrow> string) \<Rightarrow> StructuralSegment \<Rightarrow> AudioSegment" where
  "projectSegment showNumber s =
     \<lparr> id_d = id_seg s,
       startTime = start_time s,
       endTime = end_time s,
       label = type_seg s,
       category =
         (if type_seg s = ''Tune'' \<or> type_seg s = ''Song'' then music
          else if type_seg s = ''Speech'' then speech else other),
       confidence_d = confidence s,
       metadata =
         \<lparr> description = summary s,
           performer =
             (case Option.bind (segment_metadata s) performers of
                None \<Rightarrow> None | Some [] \<Rightarrow> None | Some (p # ps) \<Rightarrow> Some p),
           tuneType = Option.bind (segment_metadata s) tune_type,
           meter_d = Option.bind (segment_metadata s) meter,
           tempo =
             (case Option.bind (segment_metadata s) tempo_bpm_range of
                None \<Rightarrow> None
              | Some [] \<Rightarrow> Some (''undefined'' @ '' BPM'')
              | Some (low # high) \<Rightarrow> Some (showNumber low @ '' BPM'')),
           instruments_d = Option.bind (segment_metadata s) instruments,
           region_d = Option.bind (segment_metadata s) region,
           context_d = Option.bind (segment_metadata s) notes_md,
           evidence_d = Option.bind (segment_metadata s) evidence,
           alternatives_d = alternatives s \<rparr> \<rparr>"

definition segments_view :: "(real \<Rightarrow> string) \<Rightarrow> AppState \<Rightarrow> AudioSegment list" where
  "segments_view showNumber st =
     (case item st of
        None \<Rightarrow> []
      | Some it \<Rightarrow> map (projectSegment showNumber) (segments (structural it)))"

section \<open>The analysis endpoint (the \<open>/api/analyze\<close> handler)\<close>

text \<open>
  A segment as the model returned it: any property may be missing. A property that is
  there is taken to have the type the prompt asks for.
\<close>

record RawSegment =
  r_id :: "string option"
  r_start_time :: "real option"
  r_end_time :: "real option"
  r_type :: "string option"
  r_summary :: "string option"
  r_confidence :: "real option"
  r_alternatives :: "string list option"
  r_notes :: "string option"
  r_segment_metadata :: "SegmentMetadata option"
  r_provenance :: "Provenance option"

record Parsed =
  parsed_description :: "string option"
  parsed_temporal_index :: "string option"
  parsed_segments :: "RawSegment list option"

text \<open>The decimal digits of a natural number, as \<^verbatim>\<open>`seg_${index + 1}`\<close> renders it.\<close>

fun show_nat :: "nat \<Rightarrow> string" where
  "show_nat n =
     (if n < 10 then [''0123456789'' ! n]
      else show_nat (n div 10) @ [''0123456789'' ! (n mod 10)])"

declare show_nat.simps [simp del]

definition emptyMetadata :: SegmentMetadata where
  "emptyMetadata =
     \<lparr> tune_type = None, meter = None, tempo_bpm_range = None, instruments = None,
       region = None, performers = None, evidence = None, notes_md = None \<rparr>"

text \<open>The function mapped over \<open>segments\<close>; \<open>now\<close> is the time stamp taken before.\<close>

definition normalizeSegment :: "string \<Rightarrow> RawSegment \<Rightarrow> nat \<Rightarrow> StructuralSegment" where
  "normalizeSegment now segment index =
     \<lparr> id_seg = orElse (r_id segment) (''seg_'' @ show_nat (index + 1)),
       start_time = (case r_start_time segment of None \<Rightarrow> 0 | Some t \<Rightarrow> t),
       end_time = (case r_end_time segment of None \<Rightarrow> 0 | Some t \<Rightarrow> t),
       type_seg = orElse (r_type segment) ''Speech'',
       summary = orElse (r_summary segment) ''Segment summary unavailable.'',
       confidence = (case r_confidence segment of None \<Rightarrow> 6 / 10 | Some c \<Rightarrow> c),
       alternatives = r_alternatives segment,
       notes_seg = (case r_notes segment of None \<Rightarrow> None
                    | Some n \<Rightarrow> if n = [] then None else Some n),
       provenance =
         \<lparr> generated_by = ''gemini-2.5-flash'',
           generated_at = now,
           generation_method = ''segment_analysis'',
           human_review_status = unreviewed,
           human_reviewer = None \<rparr>,
       segment_metadata =
         Some (case r_segment_metadata segment of None \<Rightarrow> emptyMetadata | Some m \<Rightarrow> m) \<rparr>"

definition normalized :: "string \<Rightarrow> RawSegment list \<Rightarrow> StructuralSegment list" where
  "normalized now segs =
     map (\<lambda>(index, segment). normalizeSegment now segment index) (enumerate 0 segs)"

text \<open>\<open>toFixed2\<close> stands for \<open>Number.prototype.toFixed(2)\<close>.\<close>

definition buildTemporalIndex :: "(real \<Rightarrow> string) \<Rightarrow> StructuralSegment list \<Rightarrow> string" where
  "buildTemporalIndex toFixed2 segs =
     join [CHR 0x0A]
       (map (\<lambda>segment. toFixed2 (start_time segment) @ ''-'' @ toFixed2 (end_time segment)
               @ '': '' @ summary segment) segs)"

text \<open>The body of the 200 response, from the parsed JSON of the model's answer.\<close>

definition analyzeResponse :: "(real \<Rightarrow> string) \<Rightarrow> string \<Rightarrow> Parsed \<Rightarrow> AnalysisResult" where
  "analyzeResponse toFixed2 now parsed =
     (let segs = (case parsed_segments parsed of None \<Rightarrow> [] | Some xs \<Rightarrow> xs);
          norm = normalized now segs
      in \<lparr> res_segments = norm,
           res_temporal_index =
             orElse (parsed_temporal_index parsed)
               (if norm \<noteq> [] then buildTemporalIndex toFixed2 norm else []),
           res_description = orElse (parsed_description parsed) ''Semantic overview unavailable.'' \<rparr>)"

section \<open>Derived notions and example data\<close>

text \<open>\<^verbatim>\<open>item?.structural.segments\<close>, the collection every view reads (empty without a record).\<close>

definition collection :: "AppState \<Rightarrow> StructuralSegment list" where
  "collection st = (case item st of None \<Rightarrow> [] | Some it \<Rightarrow> segments (structural it))"

text \<open>
  The two operations on the store, as calls that arrive one after the other:
  \<open>replaceAll\<close> when an analysis returns, \<open>updateSegment\<close> when the user edits.
\<close>

datatype StoreOp = ReplaceAll AnalysisResult | UpdateSegment string SegmentPatch

fun applyOp :: "AppState \<Rightarrow> StoreOp \<Rightarrow> AppState" where
  "applyOp st (ReplaceAll result) = reader_onload (Inr result) st"
| "applyOp st (UpdateSegment segId updates) = updateSegment segId updates st"

fun sortedInput :: "StoreOp \<Rightarrow> bool" where
  "sortedInput (ReplaceAll result) = sorted (map start_time (res_segments result))"
| "sortedInput (UpdateSegment segId updates) = True"

text \<open>The initial values of the \<open>useState\<close> cells.\<close>

definition st_initial :: AppState where
  "st_initial =
     \<lparr> state = IDLE, item = None, error = None, audioUrl = None, currentTime = 0,
       isPlaying = False, selectedSegmentId = None, activeTab = desc,
       editingSegmentId = None, isNarrating = False \<rparr>"

definition emptyPatch :: SegmentPatch where
  "emptyPatch =
     \<lparr> p_id = None, p_start_time = None, p_end_time = None, p_type = None, p_summary = None,
       p_confidence = None, p_alternatives = None, p_notes = None, p_provenance = None,
       p_segment_metadata = None \<rparr>"

definition prov_ex :: Provenance where
  "prov_ex =
     \<lparr> generated_by = ''gemini-2.5-flash'', generated_at = ''2025-01-01T00:00:00.000Z'',
       generation_method = ''segment_analysis'', human_review_status = unreviewed,
       human_reviewer = None \<rparr>"

text \<open>The two segments of the spec's scenario, for a recording of 120 seconds.\<close>

definition seg_1 :: StructuralSegment where
  "seg_1 =
     \<lparr> id_seg = ''seg_1'', start_time = 0, end_time = 60, type_seg = ''Speech'',
       summary = ''Spoken introduction'', confidence = 6 / 10, alternatives = None,
       notes_seg = None, provenance = prov_ex, segment_metadata = Some emptyMetadata \<rparr>"

definition seg_2 :: StructuralSegment where
  "seg_2 =
     \<lparr> id_seg = ''seg_2'', start_time = 60, end_time = 120, type_seg = ''Tune'',
       summary = ''A reel'', confidence = 9 / 10, alternatives = Some [''A jig''],
       notes_seg = None, provenance = prov_ex\<lparr>human_review_status := approved\<rparr>,
       segment_metadata =
         Some (emptyMetadata\<lparr>tempo_bpm_range := Some [110, 120],
                               performers := Some [''Mary'', ''Tom'']\<rparr>) \<rparr>"

definition tech_ex :: TechnicalMetadata where
  "tech_ex =
     \<lparr> container_format = ''WAV'', codec = ''PCM'', sample_rate_hz = 48000, bit_depth = 24,
       channels = 2, duration_seconds = 120, file_size_bytes = 1024, checksum = ''ab12'',
       equipment = None, software = None, processing_notes = [] \<rparr>"

text \<open>A session that has reached the analysis stage, and two answers of the analysis.\<close>

definition st_analyzing :: AppState where
  "st_analyzing =
     processBlob_transcribed (Inr ''hello'')
       (processBlob_ingested ''blob:1'' (initialItem ''ARCH_2025_42'' ''tape'' tech_ex)
          (processBlob_begin st_initial))"

definition result_sorted :: AnalysisResult where
  "result_sorted =
     \<lparr> res_segments = [seg_1, seg_2], res_temporal_index = ''0.00-60.00: Spoken introduction'',
       res_description = ''A talk and a reel'' \<rparr>"

definition result_unsorted :: AnalysisResult where
  "result_unsorted = result_sorted\<lparr>res_segments := [seg_2, seg_1]\<rparr>"

definition st_sorted :: AppState where
  "st_sorted = reader_onload (Inr result_sorted) st_analyzing"

definition st_unsorted :: AppState where
  "st_unsorted = reader_onload (Inr result_unsorted) st_analyzing"

text \<open>A patch that names the fields the spec calls not settable.\<close>

definition patch_frozen :: SegmentPatch where
  "patch_frozen =
     emptyPatch\<lparr>p_id := Some ''renamed'', p_confidence := Some 1,
                 p_alternatives := Some (Some [''Another reading'']),
                 p_provenance := Some (prov_ex\<lparr>human_review_status := approved\<rparr>)\<rparr>"

text \<open>The edit of the spec's scenario: \<^verbatim>\<open>updateSegment("seg_1", {end_time: 58})\<close>.\<close>

definition patch_end_58 :: SegmentPatch where
  "patch_end_58 = emptyPatch\<lparr>p_end_time := Some 58\<rparr>"



text \<open>
  The session before the transcription returns; and a second session, begun after a
  reset of the first while the analysis call of the first was still in flight.
\<close>

definition st_transcribing :: AppState where
  "st_transcribing =
     processBlob_ingested ''blob:1'' (initialItem ''ARCH_2025_42'' ''tape'' tech_ex)
       (processBlob_begin st_initial)"


text \<open>
  Reading an exported file back: the first line split at the commas, and the text after
  the first line feed. \<open>splitOn\<close> is \<open>String.prototype.split\<close> for a one-character
  separator.
\<close>

fun splitOn :: "char \<Rightarrow> string \<Rightarrow> string list" where
  "splitOn sep [] = [[]]"
| "splitOn sep (c # cs) =
     (if c = sep then [] # splitOn sep cs
      else (case splitOn sep cs of [] \<Rightarrow> [[c]] | w # ws \<Rightarrow> (c # w) # ws))"

definition headerRow :: "string \<Rightarrow> string list" where
  "headerRow csv = splitOn CHR '','' (takeWhile (\<lambda>c. c \<noteq> CHR 0x0A) csv)"

definition dataRow :: "string \<Rightarrow> string" where
  "dataRow csv = drop 1 (dropWhile (\<lambda>c. c \<noteq> CHR 0x0A) csv)"

text \<open>
  A reader of one CSV row in the usual convention: a comma outside quotes ends a cell, a
  double quote opens or closes a quoted stretch, and two double quotes inside a quoted
  stretch stand for one. \<open>acc\<close> holds the cell read so far, reversed.
\<close>

datatype Mode = Plain | Quoted | QuoteSeen

fun parseCells :: "Mode \<Rightarrow> string \<Rightarrow> string \<Rightarrow> string list" where
  "parseCells m acc [] = [rev acc]"
| "parseCells Plain acc (c # cs) =
     (if c = CHR '','' then rev acc # parseCells Plain [] cs
      else if c = CHR 0x22 then parseCells Quoted acc cs
      else parseCells Plain (c # acc) cs)"
| "parseCells Quoted acc (c # cs) =
     (if c = CHR 0x22 then parseCells QuoteSeen acc cs
      else parseCells Quoted (c # acc) cs)"
| "parseCells QuoteSeen acc (c # cs) =
     (if c = CHR 0x22 then parseCells Quoted (CHR 0x22 # acc) cs
      else if c = CHR '','' then rev acc # parseCells Plain [] cs
      else parseCells Plain (c # acc) cs)"

definition parseRow :: "string \<Rightarrow> string list" where
  "parseRow row = parseCells Plain [] row"

text \<open>The value of a field, the empty string when the field is missing.\<close>

definition fieldValue :: "(string \<rightharpoonup> string) \<Rightarrow> string \<Rightarrow> string" where
  "fieldValue m h = (case m h of None \<Rightarrow> [] | Some v \<Rightarrow> v)"

text \<open>A record whose title needs quoting, and one that has lost all its fields.\<close>

definition item_titled :: ArchivalAudioItem where
  \<open>item_titled = initialItem ''ARCH_2025_42'' ''He said, "go"'' tech_ex\<close>

definition item_bare :: ArchivalAudioItem where
  "item_bare = item_titled\<lparr>descriptive := Map.empty\<rparr>"

text \<open>
  Number formatting for the examples: on the non-negative whole numbers they use, these
  agree with the template literal and with \<open>toFixed(2)\<close>.
\<close>

definition showWhole :: "real \<Rightarrow> string" where
  "showWhole r = show_nat (nat \<lfloor>r\<rfloor>)"

definition toFixed2Whole :: "real \<Rightarrow> string" where
  "toFixed2Whole r = show_nat (nat \<lfloor>r\<rfloor>) @ ''.00''"

definition seg_3 :: StructuralSegment where
  "seg_3 =
     \<lparr> id_seg = ''seg_3'', start_time = 120, end_time = 125, type_seg = ''Silence'',
       summary = ''Tape hiss'', confidence = 1 / 2, alternatives = None,
       notes_seg = None, provenance = prov_ex, segment_metadata = None \<rparr>"

text \<open>
  An answer of the model with two segments: one complete, with a provenance of its own,
  and one with no property at all.
\<close>

definition raw_full :: RawSegment where
  "raw_full =
     \<lparr> r_id = Some ''intro'', r_start_time = Some 0, r_end_time = Some 60,
       r_type = Some ''Speech'', r_summary = Some ''Spoken introduction'',
       r_confidence = Some (95 / 100), r_alternatives = None, r_notes = None,
       r_segment_metadata = Some (emptyMetadata\<lparr>region := Some ''Clare''\<rparr>),
       r_provenance =
         Some (prov_ex\<lparr>generated_by := ''the model'', human_review_status := approved\<rparr>) \<rparr>"

definition raw_bare :: RawSegment where
  "raw_bare =
     \<lparr> r_id = None, r_start_time = None, r_end_time = None, r_type = None, r_summary = None,
       r_confidence = None, r_alternatives = None, r_notes = None, r_segment_metadata = None,
       r_provenance = None \<rparr>"

definition parsed_ex :: Parsed where
  "parsed_ex =
     \<lparr> parsed_description = Some ''A talk'', parsed_temporal_index = None,
       parsed_segments = Some [raw_full, raw_bare] \<rparr>"

definition st_analyzed :: AppState where
  "st_analyzed =
     reader_onload
       (suggestArchivalSegments
          (Ok (analyzeResponse toFixed2Whole ''2025-06-01T12:00:00.000Z'' parsed_ex)))
       st_analyzing"

section \<open>Supporting lemmas\<close>

lemma collection_reader_onload:
  "collection (reader_onload (Inr result) st) =
     (if item st = None then [] else res_segments result)"
  by (auto simp add: collection_def reader_onload_def replaceAll_def split: option.splits)

lemma collection_updateSegment:
  "collection (updateSegment segId updates st) = updateSegments segId updates (collection st)"
  by (simp add: collection_def updateSegment_def updateSegments_def split: option.splits)

lemma item_st_analyzing: "item st_analyzing \<noteq> None"
  by (simp add: st_analyzing_def processBlob_transcribed_def processBlob_ingested_def)

lemma collection_st_sorted: "collection st_sorted = [seg_1, seg_2]"
  using item_st_analyzing
  by (simp add: st_sorted_def collection_reader_onload result_sorted_def)

lemma collection_st_unsorted: "collection st_unsorted = [seg_2, seg_1]"
  using item_st_analyzing
  by (simp add: st_unsorted_def collection_reader_onload result_sorted_def result_unsorted_def)

text \<open>The part of the sort invariant that the code keeps: every edit sorts the collection.\<close>

lemma sorted_updateSegments: "sorted (map start_time (updateSegments segId updates segs))"
  by (simp add: updateSegments_def)

lemma updateSegment_sorted:
  "sorted (map start_time (collection (updateSegment segId updates st)))"
  by (simp add: collection_updateSegment sorted_updateSegments)

lemma set_updateSegments:
  "set (updateSegments segId updates segs) =
     (\<lambda>s. if id_seg s = segId then editSegment s updates else s) ` set segs"
  by (simp add: updateSegments_def)

lemma edited_in_collection:
  assumes "s \<in> set (collection st)" and "id_seg s = segId"
  shows "editSegment s updates \<in> set (collection (updateSegment segId updates st))"
proof -
  have "(if id_seg s = segId then editSegment s updates else s)
          \<in> set (updateSegments segId updates (collection st))"
    unfolding set_updateSegments using assms(1) by (rule imageI)
  then show ?thesis
    using assms(2) by (simp add: collection_updateSegment)
qed

text \<open>
  Conversely, a segment of the collection after the call is an untouched segment with
  another id, or the edit of a segment that had the id.
\<close>

lemma collection_after_update:
  assumes "t \<in> set (collection (updateSegment segId updates st))"
  shows "(t \<in> set (collection st) \<and> id_seg t \<noteq> segId)
         \<or> (\<exists>s \<in> set (collection st). id_seg s = segId \<and> t = editSegment s updates)"
  using assms by (auto simp add: collection_updateSegment set_updateSegments split: if_splits)

lemma updateSegments_unknown_id:
  assumes "sorted (map start_time segs)" and "segId \<notin> id_seg ` set segs"
  shows "updateSegments segId updates segs = segs"
proof -
  have "map (\<lambda>s. if id_seg s = segId then editSegment s updates else s) segs = segs"
    using assms(2) by (induction segs) auto
  then show ?thesis
    using assms(1) by (simp add: updateSegments_def sort_key_id_if_sorted)
qed

section \<open>The sort invariant\<close>

text \<open>
  What holds of the invariant: the collection is sorted after every call as long as
  every analysis result arrives sorted.
\<close>

lemma applyOp_sorted:
  "sortedInput op \<Longrightarrow> sorted (map start_time (collection (applyOp st op)))"
  by (cases op) (simp_all add: collection_reader_onload updateSegment_sorted)

lemma run_sorted:
  assumes "sorted (map start_time (collection st))"
    and "\<forall>op \<in> set ops. sortedInput op"
  shows "sorted (map start_time (collection (foldl applyOp st ops)))"
  using assms
proof (induction ops arbitrary: st)
  case Nil
  then show ?case by simp
next
  case (Cons op ops)
  then show ?case by (simp add: applyOp_sorted)
qed

text \<open>
  C1 (a defect of the code). The claim: after every \<open>replaceAll\<close> and every
  \<open>updateSegment\<close> the collection is sorted by \<open>start_time\<close> ascending, and
  \<open>replaceAll\<close> sorts an unsorted input. \<open>updateSegment\<close> does sort
  (\<open>updateSegment_sorted\<close>), but \<open>replaceAll\<close> stores the segments in the order of
  the response: for the answer \<open>[seg_2, seg_1]\<close>, with start times 60 and 0, the
  collection after the call is in that order and is not sorted.
\<close>

theorem replaceAll_keeps_response_order:
  "map start_time (res_segments result_unsorted) = [60, 0]
   \<and> map start_time (collection (applyOp st_analyzing (ReplaceAll result_unsorted))) = [60, 0]
   \<and> \<not> sorted (map start_time (collection (applyOp st_analyzing (ReplaceAll result_unsorted))))"
  using collection_st_unsorted
  by (simp add: st_unsorted_def result_unsorted_def result_sorted_def seg_1_def seg_2_def)

section \<open>An unknown id\<close>

text \<open>
  C2 (amended). When the collection is sorted by \<open>start_time\<close>, \<open>updateSegment\<close> with
  an id that no segment has changes nothing: the whole application state, and with it
  the collection and its order, is the same after the call, and no error is set.
  (The call sorts in every case, so an unsorted collection is reordered.)
\<close>

theorem updateSegment_unknown_id_noop:
  assumes "sorted (map start_time (collection st))"
    and "segId \<notin> id_seg ` set (collection st)"
  shows "updateSegment segId updates st = st"
proof (cases "item st")
  case None
  then show ?thesis by (simp add: updateSegment_def)
next
  case (Some it)
  then have "updateSegments segId updates (segments (structural it)) = segments (structural it)"
    using assms updateSegments_unknown_id by (simp add: collection_def)
  then show ?thesis using Some by (simp add: updateSegment_def)
qed

theorem updateSegment_unknown_id_noop_witness:
  "sorted (map start_time (collection st_sorted))
   \<and> ''nonexistent'' \<notin> id_seg ` set (collection st_sorted)
   \<and> updateSegment ''nonexistent'' patch_frozen st_sorted = st_sorted"
proof -
  have h1: "sorted (map start_time (collection st_sorted))"
    by (simp add: collection_st_sorted seg_1_def seg_2_def)
  have h2: "''nonexistent'' \<notin> id_seg ` set (collection st_sorted)"
    by (simp add: collection_st_sorted seg_1_def seg_2_def)
  show ?thesis
    using h1 h2 updateSegment_unknown_id_noop [OF h1 h2, of patch_frozen] by simp
qed

text \<open>
  The claim as stated, for every collection, fails on an unsorted one: the order of the
  two segments is swapped although no segment has the id.
\<close>

theorem updateSegment_unknown_id_counterexample:
  "map id_seg (collection st_unsorted) = [''seg_2'', ''seg_1'']
   \<and> map id_seg (collection (updateSegment ''nonexistent'' emptyPatch st_unsorted))
       = [''seg_1'', ''seg_2'']"
  by (simp add: collection_updateSegment collection_st_unsorted updateSegments_def
      seg_1_def seg_2_def)

section \<open>Provenance of an edited segment\<close>

text \<open>
  C3. For a segment \<open>s\<close> of the collection and a call of \<open>updateSegment\<close> with its id,
  whatever the patch: the edited segment is in the collection after the call, its
  \<open>human_review_status\<close> is \<open>edited\<close>, and \<open>generated_by\<close>, \<open>generated_at\<close> and
  \<open>generation_method\<close> (and \<open>human_reviewer\<close>) are those of \<open>s\<close>.
\<close>

theorem updateSegment_marks_edited:
  assumes "s \<in> set (collection st)" and "id_seg s = segId"
  shows "editSegment s updates \<in> set (collection (updateSegment segId updates st))
    \<and> human_review_status (provenance (editSegment s updates)) = edited
    \<and> generated_by (provenance (editSegment s updates)) = generated_by (provenance s)
    \<and> generated_at (provenance (editSegment s updates)) = generated_at (provenance s)
    \<and> generation_method (provenance (editSegment s updates)) = generation_method (provenance s)
    \<and> human_reviewer (provenance (editSegment s updates)) = human_reviewer (provenance s)"
  using edited_in_collection [OF assms] by (simp add: editSegment_def)

text \<open>
  The second segment of the example is \<open>approved\<close> before the call, and the patch
  carries a provenance of its own: the status is \<open>edited\<close> after the call all the same.
\<close>

theorem updateSegment_marks_edited_witness:
  "seg_2 \<in> set (collection st_sorted) \<and> id_seg seg_2 = ''seg_2''
   \<and> human_review_status (provenance seg_2) = approved
   \<and> editSegment seg_2 patch_frozen
        \<in> set (collection (updateSegment ''seg_2'' patch_frozen st_sorted))
   \<and> human_review_status (provenance (editSegment seg_2 patch_frozen)) = edited
   \<and> generated_by (provenance (editSegment seg_2 patch_frozen)) = ''gemini-2.5-flash''
   \<and> generated_at (provenance (editSegment seg_2 patch_frozen)) = ''2025-01-01T00:00:00.000Z''
   \<and> generation_method (provenance (editSegment seg_2 patch_frozen)) = ''segment_analysis''"
proof -
  have h1: "seg_2 \<in> set (collection st_sorted)"
    by (simp add: collection_st_sorted)
  have h2: "id_seg seg_2 = ''seg_2''"
    by (simp add: seg_2_def)
  show ?thesis
    using h1 h2 updateSegment_marks_edited [OF h1 h2, of patch_frozen]
    by (simp add: seg_2_def prov_ex_def)
qed

section \<open>What a patch can change\<close>

text \<open>
  C4 (amended). For a segment \<open>s\<close> of the collection and a call of \<open>updateSegment\<close>
  with its id: the provenance generator, time stamp and method of the edited segment are
  those of \<open>s\<close>, whatever the patch; its \<open>id\<close>, \<open>confidence\<close> and \<open>alternatives\<close>
  are those of \<open>s\<close> when the patch has no value for them, and the values of the patch
  when it has (the patch is spread over the segment unfiltered).
\<close>

theorem updateSegment_frame:
  assumes "s \<in> set (collection st)" and "id_seg s = segId"
  shows "editSegment s updates \<in> set (collection (updateSegment segId updates st))
    \<and> generated_by (provenance (editSegment s updates)) = generated_by (provenance s)
    \<and> generated_at (provenance (editSegment s updates)) = generated_at (provenance s)
    \<and> generation_method (provenance (editSegment s updates)) = generation_method (provenance s)
    \<and> id_seg (editSegment s updates) = (case p_id updates of None \<Rightarrow> id_seg s | Some v \<Rightarrow> v)
    \<and> confidence (editSegment s updates)
        = (case p_confidence updates of None \<Rightarrow> confidence s | Some v \<Rightarrow> v)
    \<and> alternatives (editSegment s updates)
        = (case p_alternatives updates of None \<Rightarrow> alternatives s | Some v \<Rightarrow> v)"
  using edited_in_collection [OF assms] by (simp add: editSegment_def spread_def)

text \<open>The edit of the scenario names none of the three fields and leaves them alone.\<close>

theorem updateSegment_frame_witness:
  "seg_1 \<in> set (collection st_sorted) \<and> id_seg seg_1 = ''seg_1''
   \<and> editSegment seg_1 patch_end_58
        \<in> set (collection (updateSegment ''seg_1'' patch_end_58 st_sorted))
   \<and> end_time (editSegment seg_1 patch_end_58) = 58
   \<and> id_seg (editSegment seg_1 patch_end_58) = ''seg_1''
   \<and> confidence (editSegment seg_1 patch_end_58) = 6 / 10
   \<and> alternatives (editSegment seg_1 patch_end_58) = None
   \<and> generated_by (provenance (editSegment seg_1 patch_end_58)) = ''gemini-2.5-flash''"
proof -
  have h1: "seg_1 \<in> set (collection st_sorted)"
    by (simp add: collection_st_sorted)
  have h2: "id_seg seg_1 = ''seg_1''"
    by (simp add: seg_1_def)
  show ?thesis
    using h1 h2 updateSegment_frame [OF h1 h2, of patch_end_58]
    by (simp add: seg_1_def prov_ex_def patch_end_58_def emptyPatch_def editSegment_def spread_def)
qed

text \<open>
  The claim as stated fails for a patch that names the fields: the id, the confidence
  and the alternatives of the first segment are those of the patch after the call.
\<close>

theorem updateSegment_frame_counterexample:
  "map id_seg (collection st_sorted) = [''seg_1'', ''seg_2'']
   \<and> map confidence (collection st_sorted) = [6 / 10, 9 / 10]
   \<and> map alternatives (collection st_sorted) = [None, Some [''A jig'']]
   \<and> map id_seg (collection (updateSegment ''seg_1'' patch_frozen st_sorted))
       = [''renamed'', ''seg_2'']
   \<and> map confidence (collection (updateSegment ''seg_1'' patch_frozen st_sorted)) = [1, 9 / 10]
   \<and> map alternatives (collection (updateSegment ''seg_1'' patch_frozen st_sorted))
       = [Some [''Another reading''], Some [''A jig'']]"
  by (simp add: collection_updateSegment collection_st_sorted updateSegments_def
      seg_1_def seg_2_def editSegment_def patch_frozen_def emptyPatch_def spread_def prov_ex_def)

section \<open>A completion that arrives after a reset\<close>



section \<open>A failed transcription\<close>

text \<open>
  Whatever the service answers, a failed transcription ends in the state \<open>ERROR\<close> with
  the fixed message of the outer \<open>catch\<close>.
\<close>

lemma transcription_failure_generic:
  "state (processBlob_transcribed (transcribeAudio (NotOk msg)) st) = ERROR
   \<and> error (processBlob_transcribed (transcribeAudio (NotOk msg)) st)
       = Some ''Critical ingest error.''"
  by (simp add: transcribeAudio_def processBlob_transcribed_def processBlob_catch_def)

text \<open>
  C6 (a defect of the code). The claim: a failed transcription ends in the error state
  and the user sees the message of the provider verbatim. \<open>transcribeAudio\<close> throws
  an error that carries the message, here \<open>quota exceeded\<close>, and the pipeline ends in
  \<open>ERROR\<close>; but the \<open>catch\<close> of \<open>processBlob\<close> drops the error it caught and
  shows \<open>Critical ingest error.\<close> instead. The handler of a failed analysis, next to
  it, does show the message of its error (\<open>stale_completion_after_reset\<close>).
\<close>

theorem transcription_failure_message_dropped:
  "transcribeAudio (NotOk ''quota exceeded'') = Inl (Error ''quota exceeded'')
   \<and> state (processBlob_transcribed (transcribeAudio (NotOk ''quota exceeded'')) st_transcribing)
       = ERROR
   \<and> error (processBlob_transcribed (transcribeAudio (NotOk ''quota exceeded'')) st_transcribing)
       = Some ''Critical ingest error.''"
  by (simp add: transcribeAudio_def orElse_def processBlob_transcribed_def processBlob_catch_def)

section \<open>CSV export\<close>

lemma splitOn_no_sep: "sep \<notin> set x \<Longrightarrow> splitOn sep x = [x]"
  by (induction x) auto

lemma splitOn_append:
  "sep \<notin> set x \<Longrightarrow> splitOn sep (x @ sep # rest) = x # splitOn sep rest"
  by (induction x) auto

text \<open>Splitting undoes joining when no element holds the separator.\<close>

lemma splitOn_join:
  "xs \<noteq> [] \<Longrightarrow> \<forall>x \<in> set xs. sep \<notin> set x \<Longrightarrow> splitOn sep (join [sep] xs) = xs"
proof (induction xs)
  case Nil
  then show ?case by simp
next
  case (Cons x xs)
  show ?case
  proof (cases xs)
    case Nil
    then show ?thesis using Cons.prems by (simp add: splitOn_no_sep)
  next
    case (Cons y ys)
    then have "splitOn sep (join [sep] xs) = xs"
      using Cons.IH Cons.prems by simp
    then show ?thesis
      using Cons Cons.prems by (simp add: splitOn_append)
  qed
qed

lemma set_join: "set (join sep xs) \<subseteq> set sep \<union> \<Union> (set ` set xs)"
  by (induction sep xs rule: join.induct) auto

lemma takeWhile_upto: "c \<notin> set a \<Longrightarrow> takeWhile (\<lambda>x. x \<noteq> c) (a @ c # b) = a"
  by (induction a) auto

lemma dropWhile_upto: "c \<notin> set a \<Longrightarrow> dropWhile (\<lambda>x. x \<noteq> c) (a @ c # b) = c # b"
  by (induction a) auto

lemma length_headers: "length ARCHIVAL_CSV_HEADERS = 92"
  by (simp add: ARCHIVAL_CSV_HEADERS_def)

lemma headers_no_comma: "\<forall>h \<in> set ARCHIVAL_CSV_HEADERS. CHR '','' \<notin> set h"
  by (simp add: ARCHIVAL_CSV_HEADERS_def)

lemma headers_no_lf: "\<forall>h \<in> set ARCHIVAL_CSV_HEADERS. CHR 0x0A \<notin> set h"
  by (simp add: ARCHIVAL_CSV_HEADERS_def)

lemma header_line_no_lf: "CHR 0x0A \<notin> set (join '','' ARCHIVAL_CSV_HEADERS)"
  using set_join [of "'',''" ARCHIVAL_CSV_HEADERS] headers_no_lf by auto

lemma headerRow_csvContent: "headerRow (csvContent it) = ARCHIVAL_CSV_HEADERS"
proof -
  have "takeWhile (\<lambda>c. c \<noteq> CHR 0x0A) (csvContent it) = join '','' ARCHIVAL_CSV_HEADERS"
    using header_line_no_lf by (simp add: csvContent_def takeWhile_upto)
  moreover have "ARCHIVAL_CSV_HEADERS \<noteq> []"
    using length_headers by auto
  ultimately show ?thesis
    using splitOn_join [OF _ headers_no_comma] by (simp add: headerRow_def)
qed

lemma dataRow_csvContent:
  "dataRow (csvContent it) = join '','' (map (csvCell (descriptive it)) ARCHIVAL_CSV_HEADERS)"
  using header_line_no_lf by (simp add: csvContent_def dataRow_def dropWhile_upto)

lemma parse_quoted:
  "parseCells Quoted acc (doubleQuotes v @ CHR 0x22 # rest)
     = parseCells QuoteSeen (rev v @ acc) rest"
  by (induction v arbitrary: acc) (simp_all add: doubleQuotes_def)

lemma parse_plain:
  "CHR '','' \<notin> set v \<Longrightarrow> CHR 0x22 \<notin> set v
   \<Longrightarrow> parseCells Plain acc (v @ rest) = parseCells Plain (rev v @ acc) rest"
  by (induction v arbitrary: acc) auto

lemma orElse_fieldValue: "orElse (m h) [] = fieldValue m h"
  by (simp add: orElse_def fieldValue_def split: option.splits)

lemma parse_cell_last: "parseCells Plain [] (csvCell m h) = [fieldValue m h]"
proof (cases "CHR '','' \<in> set (fieldValue m h) \<or> CHR 0x22 \<in> set (fieldValue m h)
              \<or> CHR 0x0A \<in> set (fieldValue m h)")
  case True
  then have "csvCell m h = CHR 0x22 # doubleQuotes (fieldValue m h) @ CHR 0x22 # []"
    by (simp add: csvCell_def orElse_fieldValue)
  then show ?thesis by (simp add: parse_quoted)
next
  case False
  then have "csvCell m h = fieldValue m h @ []"
    by (simp add: csvCell_def orElse_fieldValue)
  then show ?thesis
    using False parse_plain [of "fieldValue m h" "[]" "[]"] by simp
qed

lemma parse_cell_more:
  "parseCells Plain [] (csvCell m h @ CHR '','' # rest)
     = fieldValue m h # parseCells Plain [] rest"
proof (cases "CHR '','' \<in> set (fieldValue m h) \<or> CHR 0x22 \<in> set (fieldValue m h)
              \<or> CHR 0x0A \<in> set (fieldValue m h)")
  case True
  then have "csvCell m h = CHR 0x22 # doubleQuotes (fieldValue m h) @ [CHR 0x22]"
    by (simp add: csvCell_def orElse_fieldValue)
  then show ?thesis by (simp add: parse_quoted)
next
  case False
  then have "csvCell m h = fieldValue m h"
    by (simp add: csvCell_def orElse_fieldValue)
  then show ?thesis
    using False parse_plain [of "fieldValue m h" "[]" "CHR '','' # rest"] by simp
qed

text \<open>Reading a row of cells back gives the values, one for each header.\<close>

lemma parse_row_cells:
  "hs \<noteq> [] \<Longrightarrow> parseRow (join '','' (map (csvCell m) hs)) = map (fieldValue m) hs"
proof (induction hs)
  case Nil
  then show ?case by simp
next
  case (Cons h hs)
  show ?case
  proof (cases hs)
    case Nil
    then show ?thesis by (simp add: parseRow_def parse_cell_last)
  next
    case (Cons g gs)
    then have "parseCells Plain [] (join '','' (map (csvCell m) hs)) = map (fieldValue m) hs"
      using Cons.IH by (simp add: parseRow_def)
    then show ?thesis using Cons by (simp add: parseRow_def parse_cell_more)
  qed
qed

lemma parseRow_dataRow:
  "parseRow (dataRow (csvContent it)) = map (fieldValue (descriptive it)) ARCHIVAL_CSV_HEADERS"
proof -
  have "ARCHIVAL_CSV_HEADERS \<noteq> []"
    using length_headers by auto
  then show ?thesis
    by (simp add: dataRow_csvContent parse_row_cells)
qed

lemma csvCell_rule:
  "csvCell m h =
     (let v = fieldValue m h in
      if CHR '','' \<in> set v \<or> CHR 0x22 \<in> set v \<or> CHR 0x0A \<in> set v
      then [CHR 0x22] @ doubleQuotes v @ [CHR 0x22] else v)"
  by (simp add: csvCell_def orElse_fieldValue)

text \<open>
  C7 (amended). The export serialises the descriptive metadata against the fixed header
  schema, which has 92 fields: the header row, read back, is the schema in its order;
  the data row holds one cell for each header in the same order, and read back it gives
  the values of the fields; the cell of a value with a comma, a double quote or a line
  feed is the value between double quotes with each double quote inside doubled, the
  cell of any other value is the value itself; a missing field gives the empty cell; and
  the value \<^verbatim>\<open>He said, "go"\<close> gives the cell \<^verbatim>\<open>"He said, ""go"""\<close>.
\<close>

theorem exportCSV_schema: \<open>
   length ARCHIVAL_CSV_HEADERS = 92
   \<and> exportCSV st = map_option csvContent (item st)
   \<and> headerRow (csvContent it) = ARCHIVAL_CSV_HEADERS
   \<and> dataRow (csvContent it) = join '','' (map (csvCell (descriptive it)) ARCHIVAL_CSV_HEADERS)
   \<and> parseRow (dataRow (csvContent it))
       = map (fieldValue (descriptive it)) ARCHIVAL_CSV_HEADERS
   \<and> csvCell (descriptive it) h =
       (let v = fieldValue (descriptive it) h in
        if CHR '','' \<in> set v \<or> CHR 0x22 \<in> set v \<or> CHR 0x0A \<in> set v
        then [CHR 0x22] @ doubleQuotes v @ [CHR 0x22] else v)
   \<and> (descriptive it h = None \<longrightarrow> csvCell (descriptive it) h = [])
   \<and> (descriptive it h = Some ''He said, "go"''
        \<longrightarrow> csvCell (descriptive it) h = ''"He said, ""go"""'')\<close>
proof -
  have "exportCSV st = map_option csvContent (item st)"
    by (simp add: exportCSV_def split: option.splits)
  moreover have \<open>descriptive it h = Some ''He said, "go"''
      \<longrightarrow> csvCell (descriptive it) h = ''"He said, ""go"""''\<close>
    by (simp add: csvCell_def orElse_def doubleQuotes_def)
  moreover have "descriptive it h = None \<longrightarrow> csvCell (descriptive it) h = []"
    by (simp add: csvCell_def orElse_def)
  ultimately show ?thesis
    using length_headers headerRow_csvContent dataRow_csvContent parseRow_dataRow
      csvCell_rule
    by blast
qed

theorem exportCSV_schema_witness: \<open>
   descriptive item_titled ''title'' = Some ''He said, "go"''
   \<and> csvCell (descriptive item_titled) ''title'' = ''"He said, ""go"""''
   \<and> headerRow (csvContent item_titled) = ARCHIVAL_CSV_HEADERS
   \<and> parseRow (dataRow (csvContent item_titled)) ! 14 = ''He said, "go"''
   \<and> descriptive item_bare ''title'' = None
   \<and> csvCell (descriptive item_bare) ''title'' = []\<close>
proof -
  have h1: \<open>descriptive item_titled ''title'' = Some ''He said, "go"''\<close>
    by (simp add: item_titled_def initialItem_def)
  have h2: "descriptive item_bare ''title'' = None"
    by (simp add: item_bare_def)
  have h3: "ARCHIVAL_CSV_HEADERS ! 14 = ''title''"
    by (simp add: ARCHIVAL_CSV_HEADERS_def)
  have h4: \<open>map (fieldValue (descriptive item_titled)) ARCHIVAL_CSV_HEADERS ! 14
              = ''He said, "go"''\<close>
    using h1 h3 length_headers by (simp add: fieldValue_def)
  note titled = exportCSV_schema [of st_initial item_titled "''title''"]
  note bare = exportCSV_schema [of st_initial item_bare "''title''"]
  have c1: \<open>csvCell (descriptive item_titled) ''title'' = ''"He said, ""go"""''\<close>
    using titled h1 by blast
  have c2: "headerRow (csvContent item_titled) = ARCHIVAL_CSV_HEADERS"
    using titled by blast
  have "parseRow (dataRow (csvContent item_titled))
          = map (fieldValue (descriptive item_titled)) ARCHIVAL_CSV_HEADERS"
    using titled by blast
  then have c3: \<open>parseRow (dataRow (csvContent item_titled)) ! 14 = ''He said, "go"''\<close>
    using h4 by simp
  have c4: "csvCell (descriptive item_bare) ''title'' = []"
    using bare h2 by blast
  show ?thesis
    using h1 h2 c1 c2 c3 c4 by blast
qed

text \<open>The claim as stated counts 90 fields; the header row of an export has 92.\<close>

theorem exportCSV_schema_counterexample:
  "length (headerRow (csvContent item_titled)) = 92
   \<and> length (headerRow (csvContent item_titled)) \<noteq> 90"
  by (simp add: headerRow_csvContent length_headers)

section \<open>The display projection\<close>

text \<open>
  C8. The view is the projection of each segment of the collection, in order. For a
  segment \<open>s\<close>: the category is \<open>music\<close> for the types \<open>Tune\<close> and \<open>Song\<close>,
  \<open>speech\<close> for \<open>Speech\<close>, and \<open>other\<close> for every other type; when
  \<open>tempo_bpm_range\<close> is present with lower bound \<open>low\<close>, the tempo is the rendering of
  \<open>low\<close> followed by \<open>BPM\<close>, whatever follows in the range; and when \<open>performers\<close>
  is present and not empty, the performer is its first entry.
\<close>

theorem projection_rules:
  "segments_view showNumber st = map (projectSegment showNumber) (collection st)
   \<and> (type_seg s = ''Tune'' \<or> type_seg s = ''Song''
        \<longrightarrow> category (projectSegment showNumber s) = music)
   \<and> (type_seg s = ''Speech'' \<longrightarrow> category (projectSegment showNumber s) = speech)
   \<and> (type_seg s \<notin> {''Tune'', ''Song'', ''Speech''}
        \<longrightarrow> category (projectSegment showNumber s) = other)
   \<and> (segment_metadata s = Some m \<and> tempo_bpm_range m = Some (low # high)
        \<longrightarrow> tempo (metadata (projectSegment showNumber s)) = Some (showNumber low @ '' BPM''))
   \<and> (segment_metadata s = Some m \<and> performers m = Some (p # ps)
        \<longrightarrow> performer (metadata (projectSegment showNumber s)) = Some p)"
  by (simp add: segments_view_def collection_def projectSegment_def split: option.splits)

theorem projection_rules_witness:
  "type_seg seg_2 = ''Tune''
   \<and> segment_metadata seg_2
       = Some (emptyMetadata\<lparr>tempo_bpm_range := Some [110, 120],
                             performers := Some [''Mary'', ''Tom'']\<rparr>)
   \<and> category (projectSegment showWhole seg_2) = music
   \<and> tempo (metadata (projectSegment showWhole seg_2)) = Some ''110 BPM''
   \<and> performer (metadata (projectSegment showWhole seg_2)) = Some ''Mary''
   \<and> type_seg seg_1 = ''Speech''
   \<and> category (projectSegment showWhole seg_1) = speech
   \<and> type_seg seg_3 = ''Silence''
   \<and> category (projectSegment showWhole seg_3) = other"
  using projection_rules [of showWhole st_sorted seg_2
          "emptyMetadata\<lparr>tempo_bpm_range := Some [110, 120],
                          performers := Some [''Mary'', ''Tom'']\<rparr>"
          110 "[120]" "''Mary''" "[''Tom'']"]
        projection_rules [of showWhole st_sorted seg_1]
        projection_rules [of showWhole st_sorted seg_3]
  by (simp add: seg_1_def seg_2_def seg_3_def emptyMetadata_def showWhole_def show_nat.simps)

section \<open>Normalisation of the model's segments\<close>

text \<open>\<open>show_nat\<close> writes the decimal digits: reading them back gives the number.\<close>

lemma digit_char: "n < 10 \<Longrightarrow> (of_char (''0123456789'' ! n) :: nat) = 48 + n"
proof -
  assume "n < 10"
  then have "n \<in> {0, 1, 2, 3, 4, 5, 6, 7, 8, 9}" by auto
  then show ?thesis by auto
qed

lemma show_nat_value: "foldl (\<lambda>a c. 10 * a + (of_char c - 48)) 0 (show_nat n) = n"
proof (induction n rule: show_nat.induct)
  case (1 n)
  show ?case
  proof (cases "n < 10")
    case True
    then show ?thesis by (simp add: show_nat.simps digit_char)
  next
    case False
    then have "foldl (\<lambda>a c. 10 * a + (of_char c - 48)) 0 (show_nat (n div 10)) = n div 10"
      using 1 by simp
    then show ?thesis using False by (simp add: show_nat.simps [of n] digit_char)
  qed
qed

lemma nth_normalized:
  "i < length segs \<Longrightarrow> normalized now segs ! i = normalizeSegment now (segs ! i) i"
  by (simp add: normalized_def nth_enumerate_eq)

text \<open>
  C9. The handler normalises every answer: the response has one segment for each segment
  of the answer. For the segment at index \<open>i\<close> (position \<open>i + 1\<close>): without an id it
  gets the id \<open>seg_\<close> followed by the digits of \<open>i + 1\<close>; without a confidence it gets
  the confidence 0.6; without \<open>segment_metadata\<close> it gets the empty metadata object.
\<close>

theorem normalize_defaults:
  assumes "i < length segs"
  shows "(parsed_segments parsed = Some segs
        \<longrightarrow> res_segments (analyzeResponse toFixed2 now parsed) = normalized now segs)
   \<and> length (normalized now segs) = length segs
   \<and> (r_id (segs ! i) = None
        \<longrightarrow> id_seg (normalized now segs ! i) = ''seg_'' @ show_nat (i + 1))
   \<and> (r_confidence (segs ! i) = None \<longrightarrow> confidence (normalized now segs ! i) = 6 / 10)
   \<and> (r_segment_metadata (segs ! i) = None
        \<longrightarrow> segment_metadata (normalized now segs ! i) = Some emptyMetadata)"
proof -
  have "length (normalized now segs) = length segs"
    by (simp add: normalized_def)
  moreover have "parsed_segments parsed = Some segs
      \<longrightarrow> res_segments (analyzeResponse toFixed2 now parsed) = normalized now segs"
    by (simp add: analyzeResponse_def Let_def)
  ultimately show ?thesis
    using assms by (simp add: nth_normalized normalizeSegment_def orElse_def)
qed

theorem normalize_defaults_witness:
  "(1::nat) < length [raw_full, raw_bare]
   \<and> parsed_segments parsed_ex = Some [raw_full, raw_bare]
   \<and> res_segments (analyzeResponse toFixed2Whole ''t'' parsed_ex)
       = normalized ''t'' [raw_full, raw_bare]
   \<and> r_id ([raw_full, raw_bare] ! 1) = None
   \<and> r_confidence ([raw_full, raw_bare] ! 1) = None
   \<and> r_segment_metadata ([raw_full, raw_bare] ! 1) = None
   \<and> length (normalized ''t'' [raw_full, raw_bare]) = 2
   \<and> id_seg (normalized ''t'' [raw_full, raw_bare] ! 1) = ''seg_2''
   \<and> confidence (normalized ''t'' [raw_full, raw_bare] ! 1) = 6 / 10
   \<and> segment_metadata (normalized ''t'' [raw_full, raw_bare] ! 1) = Some emptyMetadata"
proof -
  have h: "(1::nat) < length [raw_full, raw_bare]" by simp
  show ?thesis
    using normalize_defaults [OF h, of parsed_ex toFixed2Whole "''t''"]
    by (simp add: raw_bare_def parsed_ex_def show_nat.simps)
qed

section \<open>Provenance of a fresh analysis\<close>

lemma provenance_normalized:
  assumes "s \<in> set (normalized now segs)"
  shows "provenance s =
     \<lparr> generated_by = ''gemini-2.5-flash'', generated_at = now,
       generation_method = ''segment_analysis'', human_review_status = unreviewed,
       human_reviewer = None \<rparr>"
  using assms by (auto simp add: normalized_def normalizeSegment_def)

text \<open>
  C10. Every segment in the answer of the endpoint has the fixed provenance:
  \<open>generated_by\<close> is \<open>gemini-2.5-flash\<close>, \<open>generation_method\<close> is
  \<open>segment_analysis\<close>, \<open>human_review_status\<close> is \<open>unreviewed\<close> and
  \<open>generated_at\<close> is the time stamp of the handler, whatever provenance the raw
  segment carried. When the answer is stored in a record, the collection is the list of
  segments of the answer, so every segment of the collection is \<open>unreviewed\<close>.
\<close>

theorem analysis_provenance_fixed:
  "(\<forall>s \<in> set (res_segments (analyzeResponse toFixed2 now parsed)).
       generated_by (provenance s) = ''gemini-2.5-flash''
       \<and> generation_method (provenance s) = ''segment_analysis''
       \<and> human_review_status (provenance s) = unreviewed
       \<and> generated_at (provenance s) = now)
   \<and> (item st \<noteq> None \<longrightarrow>
         collection (reader_onload
           (suggestArchivalSegments (Ok (analyzeResponse toFixed2 now parsed))) st)
         = res_segments (analyzeResponse toFixed2 now parsed))
   \<and> (\<forall>s \<in> set (collection (reader_onload
           (suggestArchivalSegments (Ok (analyzeResponse toFixed2 now parsed))) st)).
         human_review_status (provenance s) = unreviewed)"
proof -
  let ?answer = "analyzeResponse toFixed2 now parsed"
  let ?after = "reader_onload (suggestArchivalSegments (Ok ?answer)) st"
  have answer: "res_segments ?answer
      = normalized now (case parsed_segments parsed of None \<Rightarrow> [] | Some xs \<Rightarrow> xs)"
    by (simp add: analyzeResponse_def Let_def)
  have fixed: "\<forall>s \<in> set (res_segments ?answer).
       generated_by (provenance s) = ''gemini-2.5-flash''
       \<and> generation_method (provenance s) = ''segment_analysis''
       \<and> human_review_status (provenance s) = unreviewed
       \<and> generated_at (provenance s) = now"
    unfolding answer using provenance_normalized by fastforce
  have stored: "collection ?after = (if item st = None then [] else res_segments ?answer)"
    by (simp add: suggestArchivalSegments_def collection_reader_onload)
  have "\<forall>s \<in> set (collection ?after). human_review_status (provenance s) = unreviewed"
    unfolding stored using fixed by simp
  then show ?thesis
    using fixed stored by simp
qed

text \<open>
  The first raw segment of the example says it was approved; both segments of the
  collection are \<open>unreviewed\<close> after the analysis.
\<close>

theorem analysis_provenance_fixed_witness:
  "item st_analyzing \<noteq> None
   \<and> r_provenance raw_full
       = Some (prov_ex\<lparr>generated_by := ''the model'', human_review_status := approved\<rparr>)
   \<and> collection st_analyzed = normalized ''2025-06-01T12:00:00.000Z'' [raw_full, raw_bare]
   \<and> map (human_review_status \<circ> provenance) (collection st_analyzed)
       = [unreviewed, unreviewed]
   \<and> map (generated_by \<circ> provenance) (collection st_analyzed)
       = [''gemini-2.5-flash'', ''gemini-2.5-flash'']"
proof -
  have h1: "item st_analyzing \<noteq> None" by (rule item_st_analyzing)
  have h2: "r_provenance raw_full
       = Some (prov_ex\<lparr>generated_by := ''the model'', human_review_status := approved\<rparr>)"
    by (simp add: raw_full_def)
  have h3: "res_segments (analyzeResponse toFixed2Whole ''2025-06-01T12:00:00.000Z'' parsed_ex)
       = normalized ''2025-06-01T12:00:00.000Z'' [raw_full, raw_bare]"
    by (simp add: analyzeResponse_def Let_def parsed_ex_def)
  have h4: "normalized ''2025-06-01T12:00:00.000Z'' [raw_full, raw_bare]
       = [normalizeSegment ''2025-06-01T12:00:00.000Z'' raw_full 0,
          normalizeSegment ''2025-06-01T12:00:00.000Z'' raw_bare 1]"
    by (simp add: normalized_def)
  show ?thesis
    using h1 h2
      analysis_provenance_fixed [of toFixed2Whole "''2025-06-01T12:00:00.000Z''" parsed_ex
        st_analyzing]
    by (simp add: st_analyzed_def h3 h4)
qed

end
